theory Spec2Isabelle
  imports Main
begin

section \<open>The lore environment bootstrap (src/lore/env.py)\<close>

text \<open>
  The module computes process-wide configuration at import time (the application root,
  the required interpreter version, the paths of the virtualenv's executables) and
  offers the functions that relaunch the process inside the virtualenv. Everything the
  code reads from outside (the process environment, the filesystem, \<open>sys\<close>,
  \<open>platform\<close>, \<open>os.path\<close>) is a field of the record \<open>world\<close>; the module's
  global variables are the record \<open>globals\<close>; every way a call can end other than by
  returning is a value of \<open>abort\<close>.
\<close>

subsection \<open>Python values and outcomes\<close>

datatype exn = IndexError | TypeError | IOError | OSError | OtherError string

text \<open>
  How a call ends when it does not return: \<open>sys.exit(message)\<close>, an exception that
  nobody catches, or \<open>os.execv(path, args)\<close> replacing the process image.
\<close>

datatype abort = Exit string | Raise exn | Exec string "string list"

type_synonym 'a result = "abort + 'a"

definition rbind :: "'a result \<Rightarrow> ('a \<Rightarrow> 'b result) \<Rightarrow> 'b result" where
  "rbind r f = (case r of Inl a \<Rightarrow> Inl a | Inr x \<Rightarrow> f x)"

text \<open>A component of \<open>PYTHON_VERSION_INFO\<close>: \<open>int(i) if i.isdigit() else i\<close>.\<close>

datatype vcomp = VInt nat | VStr string

text \<open>
  \<open>PYTHON_VERSION_INFO\<close> is the list \<open>[]\<close> until \<open>set_python_version\<close> assigns a
  tuple; Python never finds a tuple equal to a list.
\<close>

datatype pyseq = PyList "vcomp list" | PyTuple "vcomp list"

fun items :: "pyseq \<Rightarrow> vcomp list" where
  "items (PyList xs) = xs"
| "items (PyTuple xs) = xs"

text \<open>The slice \<open>s[0:3]\<close> keeps the kind of the sequence.\<close>

fun slice03 :: "pyseq \<Rightarrow> pyseq" where
  "slice03 (PyList xs) = PyList (take 3 xs)"
| "slice03 (PyTuple xs) = PyTuple (take 3 xs)"

text \<open>\<open>xs[i]\<close> for \<open>i \<ge> 0\<close>: IndexError out of range.\<close>

definition py_index :: "'a list \<Rightarrow> nat \<Rightarrow> 'a result" where
  "py_index xs i = (if i < length xs then Inr (xs ! i) else Inl (Raise IndexError))"

text \<open>Truthiness of an optional string: \<open>None\<close> and \<open>''\<close> are false.\<close>

fun truthy :: "string option \<Rightarrow> bool" where
  "truthy None = False"
| "truthy (Some s) = (s \<noteq> [])"

subsection \<open>String methods\<close>

text \<open>
  \<open>str.split(sep)\<close> for a one-character separator: never empty, \<open>''.split('.')\<close> is
  \<open>['']\<close>.
\<close>

fun split_on :: "char \<Rightarrow> string \<Rightarrow> string list" where
  "split_on c [] = [[]]"
| "split_on c (x # xs) =
     (if x = c then [] # split_on c xs
      else (case split_on c xs of [] \<Rightarrow> [[x]] | y # ys \<Rightarrow> (x # y) # ys))"

text \<open>\<open>str.isspace\<close> on ASCII: tab to carriage return, the separators 0x1C to 0x1F, space.\<close>

definition is_space :: "char \<Rightarrow> bool" where
  "is_space c = (c \<in> set [CHR 0x09, CHR 0x0A, CHR 0x0B, CHR 0x0C, CHR 0x0D,
                            CHR 0x1C, CHR 0x1D, CHR 0x1E, CHR 0x1F, CHR 0x20])"

definition strip :: "string \<Rightarrow> string" where
  "strip s = rev (dropWhile is_space (rev (dropWhile is_space s)))"

definition is_digit :: "char \<Rightarrow> bool" where
  "is_digit c = (c \<in> set ''0123456789'')"

text \<open>\<open>str.isdigit\<close>: at least one character, all of them digits.\<close>

definition isdigit :: "string \<Rightarrow> bool" where
  "isdigit s = (s \<noteq> [] \<and> list_all is_digit s)"

definition digit_val :: "char \<Rightarrow> nat" where
  "digit_val c = of_char c - 48"

text \<open>\<open>int(s)\<close> on a string of digits.\<close>

definition int_of_digits :: "string \<Rightarrow> nat" where
  "int_of_digits s = foldl (\<lambda>n c. 10 * n + digit_val c) 0 s"

definition digit_char :: "nat \<Rightarrow> char" where
  "digit_char d = ''0123456789'' ! d"

text \<open>\<open>str(n)\<close> for a non-negative integer.\<close>

fun str_nat :: "nat \<Rightarrow> string" where
  "str_nat n = (if n < 10 then [digit_char n] else str_nat (n div 10) @ [digit_char (n mod 10)])"

declare str_nat.simps [simp del]

fun str_vcomp :: "vcomp \<Rightarrow> string" where
  "str_vcomp (VInt n) = str_nat n"
| "str_vcomp (VStr s) = s"

definition parse_component :: "string \<Rightarrow> vcomp" where
  "parse_component i = (if isdigit i then VInt (int_of_digits i) else VStr i)"


text \<open>\<open>str.lower\<close> on ASCII.\<close>

definition lower_char :: "char \<Rightarrow> char" where
  "lower_char c =
     (case map_of (zip ''ABCDEFGHIJKLMNOPQRSTUVWXYZ'' ''abcdefghijklmnopqrstuvwxyz'') c of
        Some l \<Rightarrow> l
      | None \<Rightarrow> c)"

definition lower :: "string \<Rightarrow> string" where
  "lower s = map lower_char s"

text \<open>\<open>re.sub(r'^python-', '', s)\<close>: the prefix is removed once, where it is there.\<close>

definition sub_python_prefix :: "string \<Rightarrow> string" where
  "sub_python_prefix s = (if take 7 s = ''python-'' then drop 7 s else s)"

text \<open>
  The regular expression \<open>^(-e )?(git|svn|hg|bzr).*\<close> under \<open>re.match\<close>: the line
  starts with one of the four names, after an optional \<open>-e \<close>.
\<close>

definition starts_with :: "string \<Rightarrow> string \<Rightarrow> bool" where
  "starts_with s p = (take (length p) s = p)"

definition starts_with_vcs :: "string \<Rightarrow> bool" where
  "starts_with_vcs s = list_ex (starts_with s) [''git'', ''svn'', ''hg'', ''bzr'']"

definition vcs_line :: "string \<Rightarrow> bool" where
  "vcs_line d = ((starts_with d ''-e '' \<and> starts_with_vcs (drop 3 d)) \<or> starts_with_vcs d)"

text \<open>\<open>sep.join(xs)\<close>.\<close>

fun str_join :: "string \<Rightarrow> string list \<Rightarrow> string" where
  "str_join sep [] = []"
| "str_join sep [x] = x"
| "str_join sep (x # y # ys) = x @ sep @ str_join sep (y # ys)"

text \<open>\<open>f.readlines()\<close>: the text cut after each newline, the newlines kept.\<close>

fun readlines :: "string \<Rightarrow> string list" where
  "readlines [] = []"
| "readlines (x # xs) =
     (if x = CHR 0x0A then [x] # readlines xs
      else (case readlines xs of [] \<Rightarrow> [[x]] | l # ls \<Rightarrow> (x # l) # ls))"

subsection \<open>The world outside the module\<close>

datatype node = File string | Dir

text \<open>\<open>sys.version_info\<close>: major, minor, micro, releaselevel, serial.\<close>

record version_info =
  major :: nat
  minor :: nat
  micro :: nat
  releaselevel :: string
  serial :: nat

definition version_tuple :: "version_info \<Rightarrow> pyseq" where
  "version_tuple vi =
     PyTuple [VInt (major vi), VInt (minor vi), VInt (micro vi), VStr (releaselevel vi),
              VInt (serial vi)]"

text \<open>
  What \<open>pkg_resources.require\<close> does with a set of requirement lines: it returns, or
  raises one of \<open>ContextualVersionConflict\<close>, \<open>DistributionNotFound\<close>,
  \<open>VersionConflict\<close> (with the text of the error), or \<open>RequirementParseError\<close>, or
  something else.
\<close>

datatype require_outcome = Satisfied | Unsatisfied string | ParseError | RequireRaises exn

text \<open>
  The fields \<open>path_sep\<close>, \<open>path_join\<close>, \<open>path_dirname\<close>, \<open>path_basename\<close> and
  \<open>realpath\<close> are the \<open>os.path\<close> of the platform; \<open>fs\<close> maps a path to what is there;
  \<open>execv_error\<close> is the exception \<open>os.execv\<close> raises for a program and its arguments,
  \<open>None\<close> when the process image is replaced; \<open>ansi_error\<close>, \<open>ansi_bold\<close> and
  \<open>ansi_underline\<close> are the functions of \<open>lore.ansi\<close>, which is not part of this file.
\<close>

record world =
  environ :: "string \<rightharpoonup> string"
  getcwd :: string
  fs :: "string \<rightharpoonup> node"
  realpath :: "string \<Rightarrow> string"
  sys_prefix :: string
  sys_argv :: "string list"
  sys_version_info :: version_info
  platform_system :: string
  path_sep :: char
  path_join :: "string \<Rightarrow> string \<Rightarrow> string"
  path_dirname :: "string \<Rightarrow> string"
  path_basename :: "string \<Rightarrow> string"
  linesep :: string
  execv_error :: "string \<Rightarrow> string list \<Rightarrow> exn option"
  pkg_require :: "string set \<Rightarrow> require_outcome"
  ansi_error :: string
  ansi_bold :: "string \<Rightarrow> string"
  ansi_underline :: "string \<Rightarrow> string"

text \<open>\<open>os.environ.get(key, default)\<close>.\<close>

definition environ_get :: "world \<Rightarrow> string \<Rightarrow> string \<Rightarrow> string" where
  "environ_get w key dflt = (case environ w key of None \<Rightarrow> dflt | Some v \<Rightarrow> v)"

text \<open>\<open>os.path.exists(path)\<close> for a string; for \<open>None\<close> it raises TypeError.\<close>

definition path_exists :: "world \<Rightarrow> string \<Rightarrow> bool" where
  "path_exists w p = (fs w p \<noteq> None)"


text \<open>
  \<open>open(path, 'r', encoding='utf-8')\<close> followed by a read: the text of a file, IOError
  for anything else.
\<close>

definition open_read :: "world \<Rightarrow> string \<Rightarrow> string result" where
  "open_read w p = (case fs w p of Some (File t) \<Rightarrow> Inr t | _ \<Rightarrow> Inl (Raise IOError))"


text \<open>\<open>os.path.join(a, *ps)\<close> joins from the left.\<close>

definition join_all :: "world \<Rightarrow> string \<Rightarrow> string list \<Rightarrow> string" where
  "join_all w a ps = foldl (path_join w) a ps"

subsection \<open>The module's global variables\<close>

record globals =
  ROOT :: string
  HOME :: string
  APP :: string
  REQUIREMENTS :: string
  PYENV :: string
  PYTHON_VERSION :: "string option"
  PYTHON_VERSION_INFO :: pyseq
  PREFIX :: "string option"
  BIN_PYTHON :: "string option"
  BIN_LORE :: "string option"
  BIN_JUPYTER :: "string option"
  BIN_FLASK :: "string option"
  FLASK_APP :: "string option"
  JUPYTER_KERNEL_PATH :: string

definition VERSION_PATH :: string where
  "VERSION_PATH = ''runtime.txt''"

subsection \<open>Reading the version file and computing the executables' paths\<close>

text \<open>
  \<open>read_version(path)\<close>: \<open>None\<close> when nothing is at the path; otherwise the stripped
  text, without a leading \<open>python-\<close> when the stripped text is not empty.
\<close>

definition read_version :: "world \<Rightarrow> string \<Rightarrow> string option result" where
  "read_version w path =
     rbind (if path_exists w path then rbind (open_read w path) (\<lambda>t. Inr (Some (strip t)))
            else Inr None)
       (\<lambda>version. if truthy version then Inr (map_option sub_python_prefix version)
                   else Inr version)"

text \<open>
  \<open>set_python_version(python_version)\<close>. The result is the globals after the call. An
  exception ends the call where it is raised; the outcome then is the exception alone,
  without the globals assigned before it.
\<close>

definition set_python_version :: "world \<Rightarrow> globals \<Rightarrow> string option \<Rightarrow> globals result" where
  "set_python_version w g python_version =
     (let g1 = g\<lparr>PYTHON_VERSION := python_version\<rparr> in
      case python_version of
        None \<Rightarrow> Inr g1
      | Some v \<Rightarrow>
          if v = [] then Inr g1
          else
            let info = map parse_component (split_on (CHR ''.'') v);
                g2 = g1\<lparr>PYTHON_VERSION_INFO := PyTuple info\<rparr>
            in
              if platform_system w = ''Windows'' then
                let prefix = path_join w (lower (ROOT g)) ''.python'';
                    bin_venv = path_join w prefix ''scripts''
                in Inr (g2\<lparr>PREFIX := Some prefix,
                           BIN_PYTHON := Some (path_join w bin_venv ''python.exe''),
                           BIN_LORE := Some (path_join w bin_venv ''lore.exe''),
                           BIN_JUPYTER := Some (path_join w bin_venv ''jupyter.exe''),
                           BIN_FLASK := Some (path_join w bin_venv ''flask.exe''),
                           FLASK_APP := Some (join_all w prefix
                             [''lib'', ''site-packages'', ''lore'', ''www'', ''__init__.py''])\<rparr>)
              else
                let prefix =
                      (if PYENV g \<noteq> [] then
                         join_all w (PYENV g) [''versions'', v, ''envs'', APP g]
                       else realpath w (sys_prefix w))
                in
                  rbind (py_index info 0) (\<lambda>c0.
                  let python_major = ''python'' @ str_vcomp c0 in
                  rbind (py_index info 1) (\<lambda>c1.
                  let python_minor = python_major @ ''.'' @ str_vcomp c1 in
                  rbind (py_index info 2) (\<lambda>c2.
                  let python_patch = python_minor @ ''.'' @ str_vcomp c2;
                      b1 = join_all w prefix [''bin'', python_patch];
                      b2 = (if \<not> path_exists w b1 then join_all w prefix [''bin'', python_minor]
                            else b1);
                      b3 = (if \<not> path_exists w b2 then join_all w prefix [''bin'', python_major]
                            else b2);
                      b4 = (if \<not> path_exists w b3 then join_all w prefix [''bin'', ''python'']
                            else b3)
                  in Inr (g2\<lparr>PREFIX := Some prefix,
                             BIN_PYTHON := Some b4,
                             BIN_LORE := Some (join_all w prefix [''bin'', ''lore'']),
                             BIN_JUPYTER := Some (join_all w prefix [''bin'', ''jupyter'']),
                             BIN_FLASK := Some (join_all w prefix [''bin'', ''flask'']),
                             FLASK_APP := Some (join_all w prefix
                               [''lib'', python_minor, ''site-packages'', ''lore'', ''www'',
                                ''__init__.py''])\<rparr>)))))"

subsection \<open>The module-level statements that locate the root\<close>

text \<open>
  The \<open>while True\<close> loop of lines 389 to 397, entered with \<open>ROOT = os.getcwd()\<close>. It
  returns \<open>ROOT\<close> and \<open>PYTHON_VERSION\<close> as they are after the loop; a run that never
  leaves the loop is \<open>None\<close>.
\<close>

partial_function (option) root_loop :: "world \<Rightarrow> string \<Rightarrow> (string \<times> string option) result option"
where
  "root_loop w root =
     (case read_version w (path_join w root VERSION_PATH) of
        Inl a \<Rightarrow> Some (Inl a)
      | Inr python_version \<Rightarrow>
          if truthy python_version then Some (Inr (root, python_version))
          else
            let root' = path_dirname w root in
              if count_list root' (path_sep w) = 1 then Some (Inr (getcwd w, python_version))
              else root_loop w root')"

declare root_loop.simps [code]

text \<open>Lines 380 to 397: the values of \<open>ROOT\<close> and \<open>PYTHON_VERSION\<close> they leave.\<close>

definition locate_root :: "world \<Rightarrow> (string \<times> string option) result option" where
  "locate_root w =
     (let python_version = environ w ''LORE_PYTHON_VERSION'';
          root = environ w ''LORE_ROOT''
      in
        case root of
          Some r \<Rightarrow>
            if r \<noteq> [] then
              (if \<not> truthy python_version then
                 Some (rbind (read_version w (path_join w r VERSION_PATH)) (\<lambda>v. Inr (r, v)))
               else Some (Inr (r, python_version)))
            else
              (if \<not> truthy python_version then root_loop w (getcwd w)
               else Some (Inr (getcwd w, python_version)))
        | None \<Rightarrow>
            (if \<not> truthy python_version then root_loop w (getcwd w)
             else Some (Inr (getcwd w, python_version))))"

text \<open>
  The directory the loop looks at in its round \<open>j\<close> (counted from 0), and what it reads
  there.
\<close>

definition ancestor :: "world \<Rightarrow> nat \<Rightarrow> string" where
  "ancestor w j = (path_dirname w ^^ j) (getcwd w)"

definition examined :: "world \<Rightarrow> nat \<Rightarrow> string option result" where
  "examined w j = read_version w (path_join w (ancestor w j) VERSION_PATH)"

text \<open>
  Lines 371 to 409: the defaults of the globals, the root, \<open>HOME\<close>, \<open>APP\<close>,
  \<open>REQUIREMENTS\<close>, \<open>PYENV\<close>, and the call of \<open>set_python_version\<close>. No statement after
  line 409 assigns any of these globals but \<open>JUPYTER_KERNEL_PATH\<close>.
\<close>

definition module_init :: "world \<Rightarrow> globals result option" where
  "module_init w =
     map_option (\<lambda>r. rbind r (\<lambda>(root, python_version).
       let home = environ_get w ''HOME'' root;
           app = environ_get w ''LORE_APP'' (last (split_on (path_sep w) root));
           requirements = path_join w root ''requirements.txt'';
           pyenv0 = environ_get w ''PYENV_ROOT'' (path_join w home ''.pyenv'');
           pyenv = (if path_exists w pyenv0 then realpath w pyenv0 else pyenv0)
       in set_python_version w
            \<lparr>ROOT = root, HOME = home, APP = app, REQUIREMENTS = requirements, PYENV = pyenv,
             PYTHON_VERSION = python_version, PYTHON_VERSION_INFO = PyList [],
             PREFIX = None, BIN_PYTHON = None, BIN_LORE = None, BIN_JUPYTER = None,
             BIN_FLASK = None, FLASK_APP = None, JUPYTER_KERNEL_PATH = ''N/A''\<rparr>
            python_version)) (locate_root w)"

subsection \<open>The functions of the bootstrap protocol\<close>

text \<open>\<open>exists()\<close>: \<open>PYTHON_VERSION is not None\<close>.\<close>

definition exists :: "globals \<Rightarrow> bool" where
  "exists g = (PYTHON_VERSION g \<noteq> None)"

text \<open>\<open>launched()\<close>.\<close>

definition launched :: "world \<Rightarrow> globals \<Rightarrow> bool" where
  "launched w g =
     (if \<not> truthy (PREFIX g) then False
      else (case PREFIX g of
              None \<Rightarrow> False
            | Some p \<Rightarrow> realpath w (sys_prefix w) = realpath w p))"

text \<open>\<open>validate()\<close>.\<close>

definition validate :: "world \<Rightarrow> globals \<Rightarrow> unit result" where
  "validate w g =
     (if \<not> path_exists w (join_all w (ROOT g) [APP g, ''__init__.py'']) then
        Inl (Exit (ansi_error w @ '' Python module not found.'' @
          (if environ w ''LORE_APP'' = None then
             '' $LORE_APP is not set. Should it be different than '' @ [CHR 0x22] @ APP g @
             [CHR 0x22] @ ''?''
           else
             '' $LORE_APP is set to '' @ [CHR 0x22] @ APP g @ [CHR 0x22] @
             ''. Should it be different?'')))
      else if exists g then Inr ()
      else
        let command = (if length (sys_argv w) > 1 then sys_argv w ! 1 else ''lore'') in
          Inl (Exit (ansi_error w @ '' '' @ ansi_bold w command @
            '' is only available in lore app directories (missing '' @
            ansi_underline w VERSION_PATH @ '')'')))"

text \<open>
  \<open>check_version()\<close>. The message of the exit ends with \<open>BIN_PYTHON\<close>; adding \<open>None\<close>
  to a string raises TypeError.
\<close>

definition check_version :: "world \<Rightarrow> globals \<Rightarrow> unit result" where
  "check_version w g =
     (if slice03 (version_tuple (sys_version_info w)) = slice03 (PYTHON_VERSION_INFO g) then
        Inr ()
      else
        (case BIN_PYTHON g of
           None \<Rightarrow> Inl (Raise TypeError)
         | Some b \<Rightarrow>
             Inl (Exit (ansi_error w @
               '' your virtual env points to the wrong python version. '' @
               ''This is likely because you used a python installer that clobbered '' @
               ''the system installation, which breaks virtualenv creation. '' @
               ''To fix, check this symlink, and delete the installation of python '' @
               ''that it is brokenly pointing to, then delete the virtual env itself '' @
               ''and rerun lore install: '' @ linesep w @ linesep w @ b @ linesep w))))"

text \<open>
  \<open>reboot(*args)\<close>. Slot 0 of the local list \<open>args\<close> is the only one that can be assigned
  \<open>None\<close> (from \<open>BIN_PYTHON\<close> or \<open>BIN_LORE\<close>), so the list is its head, an optional
  string, and its tail. \<open>os.execv\<close> raises TypeError for a path that is \<open>None\<close>. The
  handler reads \<open>args[1]\<close> when \<open>args[0] == BIN_LORE\<close>, prints a hint when that is
  \<open>'console'\<close> (printing is not modelled) and raises the exception again.
\<close>

definition reboot :: "world \<Rightarrow> globals \<Rightarrow> string list \<Rightarrow> unit result" where
  "reboot w g extra =
     (case sys_argv w @ extra of
        [] \<Rightarrow> Inl (Raise IndexError)
      | a0 # rest \<Rightarrow>
          rbind
            (if a0 = ''python'' \<or> a0 = [] then Inr (BIN_PYTHON g)
             else
               rbind (py_index (sys_argv w) 0) (\<lambda>s0.
                 if path_basename w s0 \<in> set [''lore'', ''lore.exe''] then Inr (BIN_LORE g)
                 else Inr (Some a0)))
            (\<lambda>h. let e = (case h of
                             None \<Rightarrow> Some TypeError
                           | Some prog \<Rightarrow> execv_error w prog (prog # rest))
                 in case e of
                      None \<Rightarrow> (case h of None \<Rightarrow> Inl (Raise TypeError)
                                | Some prog \<Rightarrow> Inl (Exec prog (prog # rest)))
                    | Some x \<Rightarrow>
                        if h = BIN_LORE g then
                          rbind (py_index (h # map Some rest) 1) (\<lambda>_. Inl (Raise x))
                        else Inl (Raise x)))"


text \<open>
  \<open>check_requirements()\<close>. \<open>lore.__main__.install_requirements\<close> is the parameter
  \<open>install_requirements\<close>. The list \<open>list(set(dependencies) - set(vcs))\<close> has no
  order of its own: \<open>pkg_resources.require\<close> is given the set.
\<close>

definition check_requirements ::
  "(world \<Rightarrow> globals \<Rightarrow> (world \<times> globals) result) \<Rightarrow> world \<Rightarrow> globals \<Rightarrow> unit result"
where
  "check_requirements install_requirements w g =
     (if \<not> path_exists w (REQUIREMENTS g) then
        Inl (Exit (ansi_error w @ '' '' @ ansi_underline w (REQUIREMENTS g) @
          '' is missing. Please check it in.''))
      else
        rbind (open_read w (REQUIREMENTS g)) (\<lambda>text.
          let dependencies = readlines text;
              vcs = filter vcs_line dependencies;
              dependencies = set dependencies - set vcs
          in
            rbind
              (case pkg_require w dependencies of
                 Satisfied \<Rightarrow> Inr []
               | Unsatisfied error \<Rightarrow> Inr [error]
               | ParseError \<Rightarrow> Inr []
               | RequireRaises x \<Rightarrow> Inl (Raise x))
              (\<lambda>missing.
                 if missing \<noteq> [] then
                   let missing = '' missing requirement:'' @ [CHR 0x0A] @ ''  '' @
                         str_join (linesep w) missing
                   in
                     if ''--env-checked'' \<in> set (sys_argv w) then
                       Inl (Exit (ansi_error w @ missing @ [CHR 0x0A] @
                         ''Requirement installation failure, please check for errors in:'' @
                         [CHR 0x0A] @ '' $ lore install'' @ [CHR 0x0A]))
                     else
                       rbind (install_requirements w g) (\<lambda>(w', g').
                         reboot w' g' [''--env-checked''])
                 else Inr ())))"

subsection \<open>A POSIX platform, for concrete runs\<close>

text \<open>
  \<open>posixpath.join\<close>, \<open>posixpath.dirname\<close> and \<open>posixpath.basename\<close> of the Python
  standard library, the \<open>os.path\<close> functions of every platform but Windows.
\<close>

definition posix_join :: "string \<Rightarrow> string \<Rightarrow> string" where
  "posix_join a b =
     (if starts_with b ''/'' then b
      else if a = [] \<or> last a = CHR ''/'' then a @ b
      else a @ ''/'' @ b)"

definition posix_dirname :: "string \<Rightarrow> string" where
  "posix_dirname p =
     (let head = rev (dropWhile (\<lambda>c. c \<noteq> CHR ''/'') (rev p)) in
        if head \<noteq> [] \<and> \<not> list_all (\<lambda>c. c = CHR ''/'') head then
          rev (dropWhile (\<lambda>c. c = CHR ''/'') (rev head))
        else head)"

definition posix_basename :: "string \<Rightarrow> string" where
  "posix_basename p = rev (takeWhile (\<lambda>c. c \<noteq> CHR ''/'') (rev p))"

text \<open>
  The absolute normalised path of a list of components, as \<open>os.getcwd()\<close> returns it
  on POSIX: \<open>/\<close> for no component, \<open>/a/b\<close> for \<open>a\<close> and \<open>b\<close>.
\<close>

definition component :: "string \<Rightarrow> bool" where
  "component c = (c \<noteq> [] \<and> CHR ''/'' \<notin> set c)"

definition abs_path :: "string list \<Rightarrow> string" where
  "abs_path cs = (if cs = [] then ''/'' else concat (map (\<lambda>c. CHR ''/'' # c) cs))"

text \<open>
  A Linux process started as \<open>lore server\<close> under Python 3.6.1 in \<open>/home/u/app\<close>, with an
  empty environment and an empty filesystem; the examples below change the fields they
  are about.
\<close>

definition linux_world :: world where
  "linux_world =
     \<lparr>environ = Map.empty, getcwd = ''/home/u/app'', fs = Map.empty, realpath = (\<lambda>p. p),
      sys_prefix = ''/usr'', sys_argv = [''lore'', ''server''],
      sys_version_info =
        \<lparr>major = 3, minor = 6, micro = 1, releaselevel = ''final'', serial = 0\<rparr>,
      platform_system = ''Linux'', path_sep = CHR ''/'', path_join = posix_join,
      path_dirname = posix_dirname, path_basename = posix_basename, linesep = [CHR 0x0A],
      execv_error = (\<lambda>prog args. None), pkg_require = (\<lambda>reqs. Satisfied),
      ansi_error = ''ERROR:'', ansi_bold = (\<lambda>s. s), ansi_underline = (\<lambda>s. s)\<rparr>"

text \<open>
  The globals of the application \<open>app\<close> in \<open>/home/u/app\<close> with version 3.6.1 and a pyenv
  root \<open>/home/u/.pyenv\<close>.
\<close>

definition app_globals :: globals where
  "app_globals =
     \<lparr>ROOT = ''/home/u/app'', HOME = ''/home/u'', APP = ''app'',
      REQUIREMENTS = ''/home/u/app/requirements.txt'', PYENV = ''/home/u/.pyenv'',
      PYTHON_VERSION = Some ''3.6.1'',
      PYTHON_VERSION_INFO = PyTuple [VInt 3, VInt 6, VInt 1],
      PREFIX = Some ''/home/u/.pyenv/versions/3.6.1/envs/app'',
      BIN_PYTHON = Some ''/home/u/.pyenv/versions/3.6.1/envs/app/bin/python'',
      BIN_LORE = Some ''/home/u/.pyenv/versions/3.6.1/envs/app/bin/lore'',
      BIN_JUPYTER = Some ''/home/u/.pyenv/versions/3.6.1/envs/app/bin/jupyter'',
      BIN_FLASK = Some ''/home/u/.pyenv/versions/3.6.1/envs/app/bin/flask'',
      FLASK_APP = Some
        ''/home/u/.pyenv/versions/3.6.1/envs/app/lib/python3.6/site-packages/lore/www/__init__.py'',
      JUPYTER_KERNEL_PATH = ''N/A''\<rparr>"

text \<open>The globals as the module leaves them when no version was found.\<close>

definition bare_globals :: globals where
  "bare_globals =
     \<lparr>ROOT = ''/home/u/app'', HOME = ''/home/u'', APP = ''app'',
      REQUIREMENTS = ''/home/u/app/requirements.txt'', PYENV = ''/home/u/.pyenv'',
      PYTHON_VERSION = None, PYTHON_VERSION_INFO = PyList [],
      PREFIX = None, BIN_PYTHON = None, BIN_LORE = None, BIN_JUPYTER = None,
      BIN_FLASK = None, FLASK_APP = None, JUPYTER_KERNEL_PATH = ''N/A''\<rparr>"

text \<open>An installer that returns without changing anything.\<close>

definition no_install :: "world \<Rightarrow> globals \<Rightarrow> (world \<times> globals) result" where
  "no_install w g = Inr (w, g)"

text \<open>
  A world where \<open>requirements.txt\<close> lists \<open>flask\<close> and \<open>pkg_resources\<close> does not find
  it, and one where the file also has a version-control line that \<open>pkg_resources\<close> would
  reject if it were handed over.
\<close>

definition unmet_world :: world where
  "unmet_world =
     linux_world\<lparr>fs := [''/home/u/app/requirements.txt'' \<mapsto> File ''flask''],
       pkg_require := (\<lambda>reqs. if ''flask'' \<in> reqs then Unsatisfied ''flask'' else Satisfied)\<rparr>"

definition vcs_world :: world where
  "vcs_world =
     linux_world\<lparr>fs := [''/home/u/app/requirements.txt'' \<mapsto>
         File (''-e git+https://example.org/x.git'' @ [CHR 0x0A] @ ''flask'')],
       pkg_require := (\<lambda>reqs. if ''-e git+https://example.org/x.git'' @ [CHR 0x0A] \<in> reqs
                                then Unsatisfied ''vcs'' else Satisfied)\<rparr>"


section \<open>Properties\<close>

subsection \<open>Basic facts\<close>

lemma rbind_Inr [simp]: "rbind (Inr x) f = f x"
  by (simp add: rbind_def)

lemma rbind_Inl [simp]: "rbind (Inl a) f = Inl a"
  by (simp add: rbind_def)



lemma starts_with_append:
  "starts_with d (a @ b) = (starts_with d a \<and> starts_with (drop (length a) d) b)"
  unfolding starts_with_def
proof (induction a arbitrary: d)
  case Nil
  then show ?case by simp
next
  case (Cons x a)
  then show ?case by (cases d) auto
qed


lemmas run_defs = read_version_def path_exists_def open_read_def strip_def is_space_def
  sub_python_prefix_def VERSION_PATH_def posix_join_def posix_dirname_def starts_with_def
  ancestor_def examined_def

lemmas parse_defs = parse_component_def isdigit_def is_digit_def int_of_digits_def
  digit_val_def digit_char_def




text \<open>\<open>module_init\<close> on a world with \<open>runtime.txt\<close> in the working directory.\<close>

lemma module_init_app:
  "module_init (linux_world\<lparr>environ := [''HOME'' \<mapsto> ''/home/u''],
     fs := [''/home/u/app/runtime.txt'' \<mapsto> File ''python-3.6.1'']\<rparr>) = Some (Inr app_globals)"
  by (simp add: module_init_def locate_root_def root_loop.simps run_defs linux_world_def
      rbind_def environ_get_def set_python_version_def Let_def parse_defs join_all_def
      py_index_def str_nat.simps app_globals_def)

subsection \<open>Detecting the environment\<close>

text \<open>
  Claim C1. \<open>launched()\<close> returns False whenever \<open>PREFIX\<close> is unset (\<open>None\<close> or the
  empty string); for any other \<open>PREFIX\<close> it returns True if and only if the real path of
  \<open>sys.prefix\<close> equals the real path of \<open>PREFIX\<close>.
\<close>

theorem launched_spec:
  "(PREFIX g = None \<or> PREFIX g = Some [] \<longrightarrow> launched w g = False) \<and>
   (\<forall>p. PREFIX g = Some p \<and> p \<noteq> [] \<longrightarrow>
      launched w g = (realpath w (sys_prefix w) = realpath w p))"
  by (auto simp: launched_def)

text \<open>
  With no prefix the process is not launched; with the prefix of \<open>app\<close> it is launched
  exactly when \<open>sys.prefix\<close> is that prefix.
\<close>

theorem launched_spec_example:
  "launched linux_world bare_globals = False \<and>
   launched linux_world app_globals = False \<and>
   launched (linux_world\<lparr>sys_prefix := ''/home/u/.pyenv/versions/3.6.1/envs/app''\<rparr>)
     app_globals = True"
  using launched_spec [of bare_globals linux_world]
    launched_spec [of app_globals linux_world]
    launched_spec [of app_globals
      "linux_world\<lparr>sys_prefix := ''/home/u/.pyenv/versions/3.6.1/envs/app''\<rparr>"]
  by (simp add: bare_globals_def app_globals_def linux_world_def)

subsection \<open>Relaunching\<close>

text \<open>
  Claim C7. \<open>reboot(*args)\<close> hands \<open>os.execv\<close> the list \<open>sys.argv\<close> followed by the
  extra arguments, with slot 0 replaced by \<open>BIN_PYTHON\<close> when it is \<open>'python'\<close> or
  empty, and otherwise by \<open>BIN_LORE\<close> when the basename of \<open>sys.argv[0]\<close> is \<open>'lore'\<close>
  or \<open>'lore.exe'\<close>; everything after slot 0 is passed on unchanged, and the process
  image is replaced when \<open>os.execv\<close> does not raise. (The first test is made first; no
  path whose basename is \<open>'lore'\<close> or \<open>'lore.exe'\<close> is \<open>'python'\<close> or empty, see
  \<open>posix_basename_lore\<close> below.)
\<close>

theorem reboot_spec:
  "sys_argv w = first # rest \<longrightarrow>
     (first = ''python'' \<or> first = [] \<longrightarrow> BIN_PYTHON g = Some p \<longrightarrow>
        execv_error w p (p # rest @ extra) = None \<longrightarrow>
        reboot w g extra = Inl (Exec p (p # rest @ extra))) \<and>
     (\<not> (first = ''python'' \<or> first = []) \<longrightarrow>
        path_basename w first \<in> {''lore'', ''lore.exe''} \<longrightarrow>
        BIN_LORE g = Some l \<longrightarrow> execv_error w l (l # rest @ extra) = None \<longrightarrow>
        reboot w g extra = Inl (Exec l (l # rest @ extra))) \<and>
     (\<not> (first = ''python'' \<or> first = []) \<longrightarrow>
        path_basename w first \<notin> {''lore'', ''lore.exe''} \<longrightarrow>
        execv_error w first (first # rest @ extra) = None \<longrightarrow>
        reboot w g extra = Inl (Exec first (first # rest @ extra)))"
  by (auto simp: reboot_def py_index_def Let_def)

text \<open>
  \<open>python -m lore server\<close> is relaunched with the virtualenv's interpreter,
  \<open>/usr/local/bin/lore server\<close> with the virtualenv's \<open>lore\<close>, and any other program as
  itself.
\<close>

theorem reboot_spec_example:
  "reboot (linux_world\<lparr>sys_argv := [''python'', ''-m'', ''lore'', ''server'']\<rparr>) app_globals
     [''--env-launched''] =
     Inl (Exec ''/home/u/.pyenv/versions/3.6.1/envs/app/bin/python''
       [''/home/u/.pyenv/versions/3.6.1/envs/app/bin/python'', ''-m'', ''lore'', ''server'',
        ''--env-launched'']) \<and>
   reboot (linux_world\<lparr>sys_argv := [''/usr/local/bin/lore'', ''server'']\<rparr>) app_globals
     [''--env-launched''] =
     Inl (Exec ''/home/u/.pyenv/versions/3.6.1/envs/app/bin/lore''
       [''/home/u/.pyenv/versions/3.6.1/envs/app/bin/lore'', ''server'', ''--env-launched'']) \<and>
   reboot (linux_world\<lparr>sys_argv := [''/usr/bin/pytest'', ''tests'']\<rparr>) app_globals
     [''--env-checked''] =
     Inl (Exec ''/usr/bin/pytest'' [''/usr/bin/pytest'', ''tests'', ''--env-checked''])"
  using
    reboot_spec [where w = "linux_world\<lparr>sys_argv := [''python'', ''-m'', ''lore'', ''server'']\<rparr>"
      and first = "''python''" and rest = "[''-m'', ''lore'', ''server'']" and g = app_globals
      and p = "''/home/u/.pyenv/versions/3.6.1/envs/app/bin/python''"
      and l = "''/home/u/.pyenv/versions/3.6.1/envs/app/bin/lore''"
      and extra = "[''--env-launched'']"]
    reboot_spec [where w = "linux_world\<lparr>sys_argv := [''/usr/local/bin/lore'', ''server'']\<rparr>"
      and first = "''/usr/local/bin/lore''" and rest = "[''server'']" and g = app_globals
      and p = "''/home/u/.pyenv/versions/3.6.1/envs/app/bin/python''"
      and l = "''/home/u/.pyenv/versions/3.6.1/envs/app/bin/lore''"
      and extra = "[''--env-launched'']"]
    reboot_spec [where w = "linux_world\<lparr>sys_argv := [''/usr/bin/pytest'', ''tests'']\<rparr>"
      and first = "''/usr/bin/pytest''" and rest = "[''tests'']" and g = app_globals
      and p = "''/home/u/.pyenv/versions/3.6.1/envs/app/bin/python''"
      and l = "''/home/u/.pyenv/versions/3.6.1/envs/app/bin/lore''"
      and extra = "[''--env-checked'']"]
  by (simp add: linux_world_def app_globals_def posix_basename_def)

text \<open>On POSIX the two tests of \<open>reboot\<close> never hold together.\<close>

lemma posix_basename_lore:
  "posix_basename a \<in> {''lore'', ''lore.exe''} \<Longrightarrow> a \<noteq> ''python'' \<and> a \<noteq> []"
  by (auto simp: posix_basename_def)




subsection \<open>Locating the root\<close>








subsection \<open>The loop returns on POSIX\<close>

lemma abs_path_snoc:
  "abs_path (cs @ [c]) = concat (map (\<lambda>c. CHR ''/'' # c) cs) @ CHR ''/'' # c"
  by (simp add: abs_path_def)

lemma component_last: "component c \<Longrightarrow> last c \<noteq> CHR ''/''"
  unfolding component_def by (metis last_in_set)

lemma concat_last_not_slash:
  "cs \<noteq> [] \<Longrightarrow> list_all component cs \<Longrightarrow>
   concat (map (\<lambda>c. CHR ''/'' # c) cs) \<noteq> [] \<and>
   last (concat (map (\<lambda>c. CHR ''/'' # c) cs)) \<noteq> CHR ''/''"
proof (induction cs rule: rev_induct)
  case Nil
  then show ?case by simp
next
  case (snoc c cs)
  then have "component c" by simp
  then have "c \<noteq> []" "last c \<noteq> CHR ''/''"
    by (simp_all add: component_last) (simp add: component_def)
  then show ?case by simp
qed

lemma dropWhile_component:
  "component c \<Longrightarrow>
   dropWhile (\<lambda>x. x \<noteq> CHR ''/'') (rev c @ CHR ''/'' # ys) = CHR ''/'' # ys"
proof -
  assume "component c"
  then have "\<And>x. x \<in> set (rev c) \<Longrightarrow> x \<noteq> CHR ''/''"
    by (auto simp: component_def)
  then have "dropWhile (\<lambda>x. x \<noteq> CHR ''/'') (rev c @ CHR ''/'' # ys) =
      dropWhile (\<lambda>x. x \<noteq> CHR ''/'') (CHR ''/'' # ys)"
    by (rule dropWhile_append2)
  then show ?thesis by simp
qed

text \<open>\<open>posixpath.dirname\<close> drops the last component of an absolute normalised path.\<close>

lemma posix_dirname_abs_path:
  assumes "component c" "list_all component cs"
  shows "posix_dirname (abs_path (cs @ [c])) = abs_path cs"
proof -
  define P where "P = concat (map (\<lambda>c. CHR ''/'' # c) cs)"
  have "rev (abs_path (cs @ [c])) = rev c @ CHR ''/'' # rev P"
    unfolding abs_path_snoc P_def by simp
  then have head:
    "rev (dropWhile (\<lambda>x. x \<noteq> CHR ''/'') (rev (abs_path (cs @ [c])))) = P @ ''/''"
    using dropWhile_component [OF assms(1), of "rev P"] by simp
  show ?thesis
  proof (cases "cs = []")
    case True
    then have "P = []" by (simp add: P_def)
    then show ?thesis
      unfolding posix_dirname_def head using True by (simp add: abs_path_def)
  next
    case False
    from concat_last_not_slash [OF False assms(2)]
    have ne: "P \<noteq> []" and l: "last P \<noteq> CHR ''/''" by (simp_all add: P_def)
    then have "hd (rev P) \<noteq> CHR ''/''"
      by (simp add: hd_rev)
    moreover have "rev P \<noteq> []" using ne by simp
    ultimately have d: "dropWhile (\<lambda>x. x = CHR ''/'') (rev P) = rev P"
      by (cases "rev P") simp_all
    have "last P \<in> set P" using ne by (rule last_in_set)
    then have n: "\<not> list_all (\<lambda>x. x = CHR ''/'') (P @ ''/'')"
      using l by (auto simp: list_all_iff)
    have "abs_path cs = P"
      using False by (simp add: abs_path_def P_def)
    then show ?thesis
      unfolding posix_dirname_def head Let_def using d n by simp
  qed
qed

lemma posix_dirname_root: "posix_dirname ''/'' = ''/''"
  by (simp add: posix_dirname_def)

lemma root_loop_returns:
  assumes "path_dirname w = posix_dirname" "path_sep w = CHR ''/''"
  shows "list_all component cs \<Longrightarrow> \<exists>r. root_loop w (abs_path cs) = Some r"
proof (induction cs rule: rev_induct)
  case Nil
  have "path_dirname w (abs_path []) = ''/''"
    using assms posix_dirname_root by (simp add: abs_path_def)
  then show ?case
    using assms(2) by (subst root_loop.simps) (simp add: Let_def split: sum.splits)
next
  case (snoc c cs)
  then have c: "component c" and cs: "list_all component cs" by simp_all
  have d: "path_dirname w (abs_path (cs @ [c])) = abs_path cs"
    using assms posix_dirname_abs_path [OF c cs] by simp
  from snoc.IH [OF cs] obtain r where r: "root_loop w (abs_path cs) = Some r" ..
  show ?case
    by (subst root_loop.simps) (simp add: d r Let_def split: sum.splits)
qed

text \<open>
  Property X1. On POSIX (\<open>os.path.dirname\<close> is \<open>posixpath.dirname\<close>, the separator is
  \<open>/\<close>), for every working directory that is an absolute normalised path, the
  module-level statements that locate the root come to an end, whatever the environment
  and the filesystem hold: the \<open>while True\<close> loop returns or raises, and so does the
  module up to the call of \<open>set_python_version\<close>.
\<close>

theorem locate_root_returns:
  "path_dirname w = posix_dirname \<and> path_sep w = CHR ''/'' \<and> list_all component cs \<and>
   getcwd w = abs_path cs \<longrightarrow>
     (\<exists>r. locate_root w = Some r) \<and> (\<exists>r. module_init w = Some r)"
proof (intro impI, elim conjE)
  assume a: "path_dirname w = posix_dirname" "path_sep w = CHR ''/''" "list_all component cs"
    "getcwd w = abs_path cs"
  from root_loop_returns [OF a(1,2,3)] obtain r where "root_loop w (getcwd w) = Some r"
    using a(4) by auto
  then have "\<exists>r. locate_root w = Some r"
    by (simp add: locate_root_def Let_def split: option.splits)
  then show "(\<exists>r. locate_root w = Some r) \<and> (\<exists>r. module_init w = Some r)"
    by (auto simp: module_init_def)
qed

text \<open>The working directory \<open>/home/u/app\<close>.\<close>

theorem locate_root_returns_example:
  "getcwd linux_world = abs_path [''home'', ''u'', ''app''] \<and>
   locate_root linux_world \<noteq> None \<and> module_init linux_world \<noteq> None"
  using locate_root_returns [of linux_world "[''home'', ''u'', ''app'']"]
  by (simp add: linux_world_def abs_path_def component_def)




subsection \<open>Checks that exit\<close>

text \<open>
  Claim C4. \<open>validate()\<close> exits with a message when the application module
  \<open><ROOT>/<APP>/__init__.py\<close> is missing or when \<open>exists()\<close> is false, that is when
  \<open>PYTHON_VERSION\<close> is \<open>None\<close>; when the module file exists and \<open>PYTHON_VERSION\<close> is not
  \<open>None\<close> it returns.
\<close>

theorem validate_spec:
  "(\<not> path_exists w (join_all w (ROOT g) [APP g, ''__init__.py'']) \<or> \<not> exists g \<longrightarrow>
      (\<exists>message. validate w g = Inl (Exit message))) \<and>
   (path_exists w (join_all w (ROOT g) [APP g, ''__init__.py'']) \<and> PYTHON_VERSION g \<noteq> None \<longrightarrow>
      validate w g = Inr ()) \<and>
   exists g = (PYTHON_VERSION g \<noteq> None)"
  by (auto simp: validate_def exists_def Let_def)

text \<open>
  Without \<open>/home/u/app/app/__init__.py\<close> the module is reported missing; with it and
  no version, \<open>lore server\<close> is told that \<open>runtime.txt\<close> is missing; with both,
  \<open>validate\<close> returns.
\<close>

theorem validate_spec_example:
  "validate linux_world app_globals =
     Inl (Exit (''ERROR: Python module not found. $LORE_APP is not set. '' @
       ''Should it be different than '' @ [CHR 0x22] @ ''app'' @ [CHR 0x22] @ ''?'')) \<and>
   validate (linux_world\<lparr>fs := [''/home/u/app/app/__init__.py'' \<mapsto> File '''']\<rparr>) bare_globals =
     Inl (Exit ''ERROR: server is only available in lore app directories (missing runtime.txt)'') \<and>
   validate (linux_world\<lparr>fs := [''/home/u/app/app/__init__.py'' \<mapsto> File '''']\<rparr>) app_globals =
     Inr ()"
  using validate_spec [of linux_world app_globals]
    validate_spec [of "linux_world\<lparr>fs := [''/home/u/app/app/__init__.py'' \<mapsto> File '''']\<rparr>"
      bare_globals]
    validate_spec [of "linux_world\<lparr>fs := [''/home/u/app/app/__init__.py'' \<mapsto> File '''']\<rparr>"
      app_globals]
  by (simp add: validate_def exists_def linux_world_def app_globals_def bare_globals_def
      path_exists_def join_all_def posix_join_def starts_with_def VERSION_PATH_def)

lemma slice03_version_tuple:
  "slice03 (version_tuple vi) = PyTuple [VInt (major vi), VInt (minor vi), VInt (micro vi)]"
  by (simp add: version_tuple_def)

lemma check_version_returns_iff:
  "(check_version w g = Inr ()) =
     (slice03 (version_tuple (sys_version_info w)) = slice03 (PYTHON_VERSION_INFO g))"
  by (simp add: check_version_def split: option.splits)

text \<open>
  Claim C5, as amended. \<open>check_version()\<close> returns if and only if
  \<open>PYTHON_VERSION_INFO\<close> is a tuple whose first three components are the major, minor
  and micro numbers of \<open>sys.version_info\<close>; otherwise, when \<open>BIN_PYTHON\<close> is set, it
  exits with a message. For every version string with fewer than three dot-separated
  components the two slices have different lengths, and for every version string with a
  component among its first three that is not numeric the slices differ: in both cases
  \<open>check_version()\<close> does not return.
\<close>

theorem check_version_spec:
  "((check_version w g = Inr ()) =
      (\<exists>xs. PYTHON_VERSION_INFO g = PyTuple xs \<and>
            take 3 xs = [VInt (major (sys_version_info w)), VInt (minor (sys_version_info w)),
                         VInt (micro (sys_version_info w))])) \<and>
   (check_version w g \<noteq> Inr () \<and> BIN_PYTHON g = Some b \<longrightarrow>
      (\<exists>message. check_version w g = Inl (Exit message))) \<and>
   (PYTHON_VERSION_INFO g = PyTuple (map parse_component (split_on (CHR ''.'') v)) \<and>
    length (split_on (CHR ''.'') v) < 3 \<longrightarrow>
      length (items (slice03 (PYTHON_VERSION_INFO g))) <
        length (items (slice03 (version_tuple (sys_version_info w)))) \<and>
      check_version w g \<noteq> Inr ()) \<and>
   (PYTHON_VERSION_INFO g = PyTuple (map parse_component (split_on (CHR ''.'') v)) \<and>
    (\<exists>c \<in> set (take 3 (split_on (CHR ''.'') v)). \<not> isdigit c) \<longrightarrow>
      check_version w g \<noteq> Inr ())"
proof (intro conjI impI)
  show "(check_version w g = Inr ()) =
      (\<exists>xs. PYTHON_VERSION_INFO g = PyTuple xs \<and>
            take 3 xs = [VInt (major (sys_version_info w)), VInt (minor (sys_version_info w)),
                         VInt (micro (sys_version_info w))])"
    unfolding check_version_returns_iff slice03_version_tuple
    by (cases "PYTHON_VERSION_INFO g") auto
next
  assume "check_version w g \<noteq> Inr () \<and> BIN_PYTHON g = Some b"
  then show "\<exists>message. check_version w g = Inl (Exit message)"
    by (auto simp: check_version_def split: if_splits)
next
  assume a: "PYTHON_VERSION_INFO g = PyTuple (map parse_component (split_on (CHR ''.'') v)) \<and>
    length (split_on (CHR ''.'') v) < 3"
  then show "length (items (slice03 (PYTHON_VERSION_INFO g))) <
        length (items (slice03 (version_tuple (sys_version_info w))))"
    by (simp add: slice03_version_tuple)
  then show "check_version w g \<noteq> Inr ()"
    unfolding check_version_returns_iff by auto
next
  assume a: "PYTHON_VERSION_INFO g = PyTuple (map parse_component (split_on (CHR ''.'') v)) \<and>
    (\<exists>c \<in> set (take 3 (split_on (CHR ''.'') v)). \<not> isdigit c)"
  then obtain c where c: "c \<in> set (take 3 (split_on (CHR ''.'') v))" "\<not> isdigit c"
    by blast
  then have "VStr c \<in> set (take 3 (map parse_component (split_on (CHR ''.'') v)))"
    by (force simp: take_map parse_component_def)
  moreover have "VStr c \<notin> set [VInt (major (sys_version_info w)),
      VInt (minor (sys_version_info w)), VInt (micro (sys_version_info w))]"
    by simp
  ultimately show "check_version w g \<noteq> Inr ()"
    using a unfolding check_version_returns_iff slice03_version_tuple
    by (metis pyseq.inject(2) slice03.simps(2))
qed

text \<open>
  Under Python 3.6.1 the check passes for version 3.6.1; under Python 2.7.15 it exits;
  for the version tuples of \<open>'3.6'\<close> and of \<open>'3.6.x'\<close> it does not return.
\<close>

theorem check_version_spec_example:
  "check_version linux_world app_globals = Inr () \<and>
   check_version (linux_world\<lparr>sys_version_info :=
       \<lparr>major = 2, minor = 7, micro = 15, releaselevel = ''final'', serial = 0\<rparr>\<rparr>)
     app_globals \<noteq> Inr () \<and>
   (\<exists>message. check_version (linux_world\<lparr>sys_version_info :=
       \<lparr>major = 2, minor = 7, micro = 15, releaselevel = ''final'', serial = 0\<rparr>\<rparr>) app_globals =
     Inl (Exit message)) \<and>
   check_version linux_world (app_globals\<lparr>PYTHON_VERSION_INFO := PyTuple [VInt 3, VInt 6]\<rparr>) \<noteq>
     Inr () \<and>
   check_version linux_world
     (app_globals\<lparr>PYTHON_VERSION_INFO := PyTuple [VInt 3, VInt 6, VStr ''x'']\<rparr>) \<noteq> Inr ()"
  using check_version_spec [of linux_world app_globals]
    check_version_spec [of "linux_world\<lparr>sys_version_info :=
       \<lparr>major = 2, minor = 7, micro = 15, releaselevel = ''final'', serial = 0\<rparr>\<rparr>" app_globals
       "''/home/u/.pyenv/versions/3.6.1/envs/app/bin/python''"]
    check_version_spec [of linux_world
      "app_globals\<lparr>PYTHON_VERSION_INFO := PyTuple [VInt 3, VInt 6]\<rparr>" _ "''3.6''"]
    check_version_spec [of linux_world
      "app_globals\<lparr>PYTHON_VERSION_INFO := PyTuple [VInt 3, VInt 6, VStr ''x'']\<rparr>" _ "''3.6.x''"]
  by (simp add: linux_world_def app_globals_def parse_defs)

text \<open>
  Claim C5 as it was stated fails twice. With the globals as the module leaves them
  when no version was found, the versions differ and \<open>check_version()\<close> raises TypeError
  while it builds the message, since \<open>BIN_PYTHON\<close> is \<open>None\<close>: it neither returns nor
  exits with a message. And the version string \<open>'3.6.x'\<close> has two numeric components,
  yet both slices have three components.
\<close>

theorem check_version_counterexample:
  "slice03 (version_tuple (sys_version_info linux_world)) \<noteq>
     slice03 (PYTHON_VERSION_INFO bare_globals) \<and>
   check_version linux_world bare_globals = Inl (Raise TypeError) \<and>
   length (filter isdigit (split_on (CHR ''.'') ''3.6.x'')) = 2 \<and>
   length (items (slice03 (PyTuple (map parse_component (split_on (CHR ''.'') ''3.6.x''))))) = 3 \<and>
   length (items (slice03 (version_tuple (sys_version_info linux_world)))) = 3"
  by (simp add: check_version_def linux_world_def bare_globals_def version_tuple_def
      isdigit_def is_digit_def)

lemma vcs_line_iff:
  "vcs_line d =
     (\<exists>name \<in> {''git'', ''svn'', ''hg'', ''bzr''}.
        starts_with d name \<or> starts_with d (''-e '' @ name))"
proof -
  have e: "starts_with d (''-e '' @ n) = (starts_with d ''-e '' \<and> starts_with (drop 3 d) n)"
    for n
    using starts_with_append [of d "''-e ''" n] by (simp add: numeral_3_eq_3)
  show ?thesis
    unfolding vcs_line_def starts_with_vcs_def e by auto
qed

lemma unchecked_lines:
  "set xs - set (filter vcs_line xs) = {d \<in> set xs. \<not> vcs_line d}"
  by auto

lemma check_requirements_read:
  "fs w (REQUIREMENTS g) = Some (File content) \<Longrightarrow>
   check_requirements install_requirements w g =
     (case pkg_require w {d \<in> set (readlines content). \<not> vcs_line d} of
        Satisfied \<Rightarrow> Inr ()
      | Unsatisfied error \<Rightarrow>
          if ''--env-checked'' \<in> set (sys_argv w) then
            Inl (Exit (ansi_error w @ ('' missing requirement:'' @ [CHR 0x0A] @ ''  '' @ error) @
              [CHR 0x0A] @ ''Requirement installation failure, please check for errors in:'' @
              [CHR 0x0A] @ '' $ lore install'' @ [CHR 0x0A]))
          else rbind (install_requirements w g) (\<lambda>(w', g'). reboot w' g' [''--env-checked''])
      | ParseError \<Rightarrow> Inr ()
      | RequireRaises x \<Rightarrow> Inl (Raise x))"
  unfolding check_requirements_def Let_def unchecked_lines
  by (simp add: path_exists_def open_read_def split: require_outcome.splits)

text \<open>
  Claim C6. \<open>check_requirements()\<close> exits with a message when \<open>requirements.txt\<close> does
  not exist. When it is a file, the lines handed to \<open>pkg_resources.require\<close> are its
  lines without the version-control lines (those that start with \<open>git\<close>, \<open>svn\<close>, \<open>hg\<close>
  or \<open>bzr\<close>, after an optional \<open>-e \<close>); when they are satisfied it returns; when they
  are not, it exits with a message if \<open>'--env-checked'\<close> is among \<open>sys.argv\<close>, and
  otherwise calls the installer and, when that returns, ends as
  \<open>reboot('--env-checked')\<close> ends.
\<close>

theorem check_requirements_spec:
  "(\<not> path_exists w (REQUIREMENTS g) \<longrightarrow>
      (\<exists>message. check_requirements install_requirements w g = Inl (Exit message))) \<and>
   (fs w (REQUIREMENTS g) = Some (File content) \<longrightarrow>
      (let checked = {d \<in> set (readlines content).
          \<not> (\<exists>name \<in> {''git'', ''svn'', ''hg'', ''bzr''}.
                starts_with d name \<or> starts_with d (''-e '' @ name))}
       in
         (pkg_require w checked = Satisfied \<longrightarrow>
            check_requirements install_requirements w g = Inr ()) \<and>
         (pkg_require w checked = Unsatisfied error \<and> ''--env-checked'' \<in> set (sys_argv w) \<longrightarrow>
            (\<exists>message. check_requirements install_requirements w g = Inl (Exit message))) \<and>
         (pkg_require w checked = Unsatisfied error \<and> ''--env-checked'' \<notin> set (sys_argv w) \<and>
          install_requirements w g = Inr (w', g') \<longrightarrow>
            check_requirements install_requirements w g = reboot w' g' [''--env-checked''])))"
proof (intro conjI impI)
  assume "\<not> path_exists w (REQUIREMENTS g)"
  then show "\<exists>message. check_requirements install_requirements w g = Inl (Exit message)"
    by (simp add: check_requirements_def)
next
  assume f: "fs w (REQUIREMENTS g) = Some (File content)"
  show "let checked = {d \<in> set (readlines content).
          \<not> (\<exists>name \<in> {''git'', ''svn'', ''hg'', ''bzr''}.
                starts_with d name \<or> starts_with d (''-e '' @ name))}
       in
         (pkg_require w checked = Satisfied \<longrightarrow>
            check_requirements install_requirements w g = Inr ()) \<and>
         (pkg_require w checked = Unsatisfied error \<and> ''--env-checked'' \<in> set (sys_argv w) \<longrightarrow>
            (\<exists>message. check_requirements install_requirements w g = Inl (Exit message))) \<and>
         (pkg_require w checked = Unsatisfied error \<and> ''--env-checked'' \<notin> set (sys_argv w) \<and>
          install_requirements w g = Inr (w', g') \<longrightarrow>
            check_requirements install_requirements w g = reboot w' g' [''--env-checked''])"
    unfolding Let_def check_requirements_read [OF f] vcs_line_iff [symmetric] by simp
qed

text \<open>
  Without \<open>requirements.txt\<close> the check exits; with an unmet \<open>flask\<close> it exits when
  \<open>--env-checked\<close> was given and relaunches with \<open>--env-checked\<close> otherwise; a
  version-control line is not handed to \<open>pkg_resources\<close>.
\<close>

theorem check_requirements_spec_example:
  "(\<exists>message. check_requirements no_install linux_world app_globals = Inl (Exit message)) \<and>
   (\<exists>message. check_requirements no_install
      (unmet_world\<lparr>sys_argv := [''lore'', ''server'', ''--env-checked'']\<rparr>) app_globals =
      Inl (Exit message)) \<and>
   check_requirements no_install unmet_world app_globals =
     Inl (Exec ''/home/u/.pyenv/versions/3.6.1/envs/app/bin/lore''
       [''/home/u/.pyenv/versions/3.6.1/envs/app/bin/lore'', ''server'', ''--env-checked'']) \<and>
   check_requirements no_install vcs_world app_globals = Inr ()"
proof (intro conjI)
  show "\<exists>message. check_requirements no_install linux_world app_globals = Inl (Exit message)"
    using check_requirements_spec [where w = linux_world and g = app_globals
        and install_requirements = no_install]
    by (simp add: linux_world_def path_exists_def)
  show "\<exists>message. check_requirements no_install
      (unmet_world\<lparr>sys_argv := [''lore'', ''server'', ''--env-checked'']\<rparr>) app_globals =
      Inl (Exit message)"
    using check_requirements_spec [where g = app_globals and install_requirements = no_install
        and w = "unmet_world\<lparr>sys_argv := [''lore'', ''server'', ''--env-checked'']\<rparr>"
        and content = "''flask''" and error = "''flask''" and w' = unmet_world
        and g' = app_globals]
    by (simp add: unmet_world_def linux_world_def app_globals_def starts_with_def)
  show "check_requirements no_install unmet_world app_globals =
     Inl (Exec ''/home/u/.pyenv/versions/3.6.1/envs/app/bin/lore''
       [''/home/u/.pyenv/versions/3.6.1/envs/app/bin/lore'', ''server'', ''--env-checked''])"
    using check_requirements_spec [where g = app_globals and install_requirements = no_install
        and w = unmet_world and content = "''flask''" and error = "''flask''"
        and w' = unmet_world and g' = app_globals]
    by (simp add: unmet_world_def linux_world_def app_globals_def no_install_def
        starts_with_def reboot_def py_index_def posix_basename_def)
  show "check_requirements no_install vcs_world app_globals = Inr ()"
    using check_requirements_spec [where g = app_globals and install_requirements = no_install
        and w = vcs_world
        and content = "''-e git+https://example.org/x.git'' @ [CHR 0x0A] @ ''flask''"
        and error = "''vcs''" and w' = vcs_world and g' = app_globals]
    by (simp add: vcs_world_def linux_world_def app_globals_def starts_with_def)
qed

subsection \<open>The executables' paths\<close>

















end
